theory Spec2Isabelle
  imports Main
begin

section \<open>Tokens, dynamic values and errors\<close>

text \<open>
  The token kinds of \<^verbatim>\<open>core/TokenKind.go\<close>, in the order of the \<^verbatim>\<open>iota\<close> block.
\<close>

datatype tTokenKind =
    tUNKNOWN
  | tPREFIX
  | tNUMERIC
  | tBOOLEAN
  | tSTRING
  | tPATTERN
  | tTIME
  | tVARIABLE
  | tFUNCTION
  | tSEPARATOR
  | tACCESSOR
  | tCOMPARATOR
  | tLOGICALOP
  | tMODIFIER
  | tCLAUSE
  | tCLAUSE_CLOSE
  | tTERNARY

fun tString :: "tTokenKind \<Rightarrow> string" where
  "tString tPREFIX = ''tPREFIX''"
| "tString tNUMERIC = ''tNUMERIC''"
| "tString tBOOLEAN = ''tBOOLEAN''"
| "tString tSTRING = ''tSTRING''"
| "tString tPATTERN = ''tPATTERN''"
| "tString tTIME = ''tTIME''"
| "tString tVARIABLE = ''tVARIABLE''"
| "tString tFUNCTION = ''tFUNCTION''"
| "tString tSEPARATOR = ''tSEPARATOR''"
| "tString tCOMPARATOR = ''tCOMPARATOR''"
| "tString tLOGICALOP = ''tLOGICALOP''"
| "tString tMODIFIER = ''tMODIFIER''"
| "tString tCLAUSE = ''tCLAUSE''"
| "tString tCLAUSE_CLOSE = ''tCLAUSE_CLOSE''"
| "tString tTERNARY = ''tTERNARY''"
| "tString tACCESSOR = ''tACCESSOR''"
| "tString tUNKNOWN = ''tUNKNOWN''"

text \<open>
  The operator symbols of \<^verbatim>\<open>core/OperatorSymbol.go\<close>; \<open>tVALUE\<close> is the zero value,
  which a lookup of a missing key in one of the symbol maps returns.
\<close>

datatype tOperatorSymbol =
    tVALUE
  | tLITERAL
  | tNOOP
  | tEQ
  | tNEQ
  | tGT
  | tLT
  | tGTE
  | tLTE
  | tREQ
  | tNREQ
  | tIN
  | tAND
  | tOR
  | tPLUS
  | tMINUS
  | tBITWISE_AND
  | tBITWISE_OR
  | tBITWISE_XOR
  | tBITWISE_LSHIFT
  | tBITWISE_RSHIFT
  | tMULTIPLY
  | tDIVIDE
  | tMODULUS
  | tEXPONENT
  | tNEGATE
  | tINVERT
  | tBITWISE_NOT
  | tTERNARY_TRUE
  | tTERNARY_FALSE
  | tCOALESCE
  | tFUNCTIONAL
  | tACCESS
  | tSEPARATE

text \<open>
  A Go \<^verbatim>\<open>interface{}\<close> as the engine uses it. The type \<open>'n\<close> stands for
  \<^verbatim>\<open>float64\<close> and \<open>'p\<close> for a compiled \<^verbatim>\<open>*regexp.Regexp\<close>; neither is
  interpreted. A \<^verbatim>\<open>time.Time\<close> is represented by the number
  \<^verbatim>\<open>float64(t.Unix())\<close>, the only thing the engine reads from it; a function
  of the function table by its name. \<open>VInt\<close> is a Go \<^verbatim>\<open>int\<close> (the short-circuit
  marker is one), \<open>VRune\<close> the character stored in a parenthesis token.
\<close>

datatype ('n, 'p) val =
    VNil
  | VFloat 'n
  | VBool bool
  | VString string
  | VInt int
  | VRune char
  | VPattern 'p
  | VTime 'n
  | VStrings "string list"
  | VFunction string
  | VArray "('n, 'p) val list"

fun isString :: "('n, 'p) val \<Rightarrow> bool" where
  "isString (VString s) = True"
| "isString v = False"

text \<open>
  Errors are values. \<open>errorsNew\<close> is \<^verbatim>\<open>errors.New\<close> of a fixed text;
  \<open>errorf\<close> is \<^verbatim>\<open>errors.New(fmt.Sprintf(format, args...))\<close>, kept as the format
  and its arguments; \<open>errorFormat\<close> is the same for a stage's \<^verbatim>\<open>typeErrorFormat\<close>,
  which is one of the format constants of the planner (their texts are not part of the
  sources at hand, so they are kept by name) or a literal text; \<open>externalError\<close> is an error returned by a library (the regular
  expression compiler). A run-time panic of Go (index out of range, a failed type assertion,
  a nil dereference) ends the call; the model returns it as the value \<open>panic\<close>, which is
  propagated like an error and told apart by its constructor.
\<close>

datatype typeErrorFormat =
    noErrorFormat
  | prefixErrorFormat
  | modifierErrorFormat
  | logicalErrorFormat
  | comparatorErrorFormat
  | ternaryErrorFormat
  | errorFormatText string

datatype ('n, 'p) error =
    errorsNew string
  | errorf string "('n, 'p) val list"
  | errorFormat typeErrorFormat "('n, 'p) val list"
  | externalError string
  | panic string

record ('n, 'p) tExpressionToken =
  Kind :: tTokenKind
  Value :: "('n, 'p) val"

text \<open>The zero value of the token struct (\<^verbatim>\<open>var lastToken tExpressionToken\<close>).\<close>

definition zeroToken :: "('n, 'p) tExpressionToken" where
  "zeroToken = \<lparr>Kind = tUNKNOWN, Value = VNil\<rparr>"

section \<open>The lexer state table (\<^verbatim>\<open>core/lexerState.go\<close>)\<close>

record lexerState =
  isEOF :: bool
  isNullable :: bool
  kind :: tTokenKind
  validNextKinds :: "tTokenKind list"

definition validLexerStates :: "lexerState list" where
  "validLexerStates = [
    \<lparr>isEOF = False, isNullable = True, kind = tUNKNOWN, validNextKinds =
      [tPREFIX, tNUMERIC, tBOOLEAN, tVARIABLE, tPATTERN, tFUNCTION, tACCESSOR, tSTRING, tTIME,
       tCLAUSE]\<rparr>,
    \<lparr>isEOF = False, isNullable = True, kind = tCLAUSE, validNextKinds =
      [tPREFIX, tNUMERIC, tBOOLEAN, tVARIABLE, tPATTERN, tFUNCTION, tACCESSOR, tSTRING, tTIME,
       tCLAUSE, tCLAUSE_CLOSE]\<rparr>,
    \<lparr>isEOF = True, isNullable = True, kind = tCLAUSE_CLOSE, validNextKinds =
      [tCOMPARATOR, tMODIFIER, tNUMERIC, tBOOLEAN, tVARIABLE, tSTRING, tPATTERN, tTIME,
       tCLAUSE, tCLAUSE_CLOSE, tLOGICALOP, tTERNARY, tSEPARATOR]\<rparr>,
    \<lparr>isEOF = True, isNullable = False, kind = tNUMERIC, validNextKinds =
      [tMODIFIER, tCOMPARATOR, tLOGICALOP, tCLAUSE_CLOSE, tTERNARY, tSEPARATOR]\<rparr>,
    \<lparr>isEOF = True, isNullable = False, kind = tBOOLEAN, validNextKinds =
      [tMODIFIER, tCOMPARATOR, tLOGICALOP, tCLAUSE_CLOSE, tTERNARY, tSEPARATOR]\<rparr>,
    \<lparr>isEOF = True, isNullable = False, kind = tSTRING, validNextKinds =
      [tMODIFIER, tCOMPARATOR, tLOGICALOP, tCLAUSE_CLOSE, tTERNARY, tSEPARATOR]\<rparr>,
    \<lparr>isEOF = True, isNullable = False, kind = tTIME, validNextKinds =
      [tMODIFIER, tCOMPARATOR, tLOGICALOP, tCLAUSE_CLOSE, tSEPARATOR]\<rparr>,
    \<lparr>isEOF = True, isNullable = False, kind = tPATTERN, validNextKinds =
      [tMODIFIER, tCOMPARATOR, tLOGICALOP, tCLAUSE_CLOSE, tSEPARATOR]\<rparr>,
    \<lparr>isEOF = True, isNullable = False, kind = tVARIABLE, validNextKinds =
      [tMODIFIER, tCOMPARATOR, tLOGICALOP, tCLAUSE_CLOSE, tTERNARY, tSEPARATOR]\<rparr>,
    \<lparr>isEOF = False, isNullable = False, kind = tMODIFIER, validNextKinds =
      [tPREFIX, tNUMERIC, tVARIABLE, tFUNCTION, tACCESSOR, tSTRING, tBOOLEAN, tCLAUSE,
       tCLAUSE_CLOSE]\<rparr>,
    \<lparr>isEOF = False, isNullable = False, kind = tCOMPARATOR, validNextKinds =
      [tPREFIX, tNUMERIC, tBOOLEAN, tVARIABLE, tFUNCTION, tACCESSOR, tSTRING, tTIME, tCLAUSE,
       tCLAUSE_CLOSE, tPATTERN]\<rparr>,
    \<lparr>isEOF = False, isNullable = False, kind = tLOGICALOP, validNextKinds =
      [tPREFIX, tNUMERIC, tBOOLEAN, tVARIABLE, tFUNCTION, tACCESSOR, tSTRING, tTIME, tCLAUSE,
       tCLAUSE_CLOSE]\<rparr>,
    \<lparr>isEOF = False, isNullable = False, kind = tPREFIX, validNextKinds =
      [tNUMERIC, tBOOLEAN, tVARIABLE, tFUNCTION, tACCESSOR, tCLAUSE, tCLAUSE_CLOSE]\<rparr>,
    \<lparr>isEOF = False, isNullable = False, kind = tTERNARY, validNextKinds =
      [tPREFIX, tNUMERIC, tBOOLEAN, tSTRING, tTIME, tVARIABLE, tFUNCTION, tACCESSOR, tCLAUSE,
       tSEPARATOR]\<rparr>,
    \<lparr>isEOF = False, isNullable = False, kind = tFUNCTION, validNextKinds =
      [tCLAUSE]\<rparr>,
    \<lparr>isEOF = True, isNullable = False, kind = tACCESSOR, validNextKinds =
      [tCLAUSE, tMODIFIER, tCOMPARATOR, tLOGICALOP, tCLAUSE_CLOSE, tTERNARY, tSEPARATOR]\<rparr>,
    \<lparr>isEOF = False, isNullable = True, kind = tSEPARATOR, validNextKinds =
      [tPREFIX, tNUMERIC, tBOOLEAN, tSTRING, tTIME, tVARIABLE, tFUNCTION, tACCESSOR,
       tCLAUSE]\<rparr>
  ]"

definition canTransitionTo :: "lexerState \<Rightarrow> tTokenKind \<Rightarrow> bool" where
  "canTransitionTo this k = List.member (validNextKinds this) k"

text \<open>
  \<^verbatim>\<open>getLexerStateForToken\<close>: the first row of the table for the kind, or an error
  when there is none.
\<close>

definition getLexerStateForToken :: "tTokenKind \<Rightarrow> ('n, 'p) error + lexerState" where
  "getLexerStateForToken k =
     (case find (\<lambda>possibleState. kind possibleState = k) validLexerStates of
        Some possibleState \<Rightarrow> Inr possibleState
      | None \<Rightarrow> Inl (errorf ''No lexer state found for token kind '%v'\<newline>''
                        [VString (tString k)]))"

text \<open>
  The loop of \<^verbatim>\<open>checkExpressionSyntax\<close>, with its two loop variables \<open>state\<close> and
  \<open>lastToken\<close>; it returns the state after the last token.
  \<^verbatim>\<open>lastToken.Value.(string)\<close> panics when the value is not a string.
\<close>

fun checkExpressionSyntaxLoop ::
  "lexerState \<Rightarrow> ('n, 'p) tExpressionToken \<Rightarrow> ('n, 'p) tExpressionToken list
     \<Rightarrow> ('n, 'p) error + lexerState" where
  "checkExpressionSyntaxLoop state lastToken [] = Inr state"
| "checkExpressionSyntaxLoop state lastToken (token # rest) =
     (if \<not> canTransitionTo state (Kind token) then
        (if Kind lastToken = tVARIABLE \<and> Kind token = tCLAUSE then
           (case Value lastToken of
              VString name \<Rightarrow> Inl (errorsNew (''Undefined function '' @ name))
            | _ \<Rightarrow> Inl (panic ''interface conversion: interface {} is not string''))
         else
           Inl (errorf ''Cannot transition token types from %s [%v] to %s [%v]''
                  [VString (tString (kind state)), Value lastToken,
                   VString (tString (Kind token)), Value token]))
      else
        (case getLexerStateForToken (Kind token) of
           Inl err \<Rightarrow> Inl err
         | Inr state' \<Rightarrow>
             if \<not> isNullable state' \<and> Value token = VNil then
               Inl (errorf ''Token kind '%v' cannot have a nil value''
                      [VString (tString (Kind token))])
             else checkExpressionSyntaxLoop state' token rest))"

text \<open>\<^verbatim>\<open>checkExpressionSyntax\<close> returns an \<^verbatim>\<open>error\<close>; \<open>None\<close> is \<^verbatim>\<open>nil\<close>.\<close>

definition checkExpressionSyntax ::
  "('n, 'p) tExpressionToken list \<Rightarrow> ('n, 'p) error option" where
  "checkExpressionSyntax tokens =
     (case checkExpressionSyntaxLoop (validLexerStates ! 0) zeroToken tokens of
        Inl err \<Rightarrow> Some err
      | Inr state \<Rightarrow>
          if \<not> isEOF state then Some (errorsNew ''Unexpected end of expression'')
          else None)"

section \<open>What the grammar checker accepts\<close>

text \<open>
  The table read by kind: \<open>stateOf k\<close> is the row of kind \<open>k\<close>. A transition from kind
  \<open>k1\<close> to kind \<open>k2\<close> is legal when the row of \<open>k1\<close> lists \<open>k2\<close>. The checker starts
  in the row of \<open>tUNKNOWN\<close>, so the kinds it walks are \<open>kindChain tokens\<close>: the start kind
  followed by the kinds of the tokens; position \<open>i\<close> of the chain is the kind before token
  \<open>i\<close>. \<open>valueOk t\<close> says that a token of a non-nullable kind carries a value, and
  \<open>passesUpTo tokens i\<close> that the first \<open>i\<close> tokens pass both checks of the loop.
\<close>

definition stateOf :: "tTokenKind \<Rightarrow> lexerState" where
  "stateOf k = (case find (\<lambda>possibleState. kind possibleState = k) validLexerStates of
        Some s \<Rightarrow> s | None \<Rightarrow> validLexerStates ! 0)"

definition legalTransition :: "tTokenKind \<Rightarrow> tTokenKind \<Rightarrow> bool" where
  "legalTransition k1 k2 = canTransitionTo (stateOf k1) k2"

definition kindChain :: "('n, 'p) tExpressionToken list \<Rightarrow> tTokenKind list" where
  "kindChain tokens = tUNKNOWN # map Kind tokens"

definition valueOk :: "('n, 'p) tExpressionToken \<Rightarrow> bool" where
  "valueOk t = (isNullable (stateOf (Kind t)) \<or> Value t \<noteq> VNil)"

definition passesUpTo :: "('n, 'p) tExpressionToken list \<Rightarrow> nat \<Rightarrow> bool" where
  "passesUpTo tokens i =
     (\<forall>j<i. legalTransition (kindChain tokens ! j) (Kind (tokens ! j)) \<and> valueOk (tokens ! j))"

lemma getLexerStateForToken_stateOf: "getLexerStateForToken k = Inr (stateOf k)"
  by (cases k) (simp_all add: getLexerStateForToken_def stateOf_def validLexerStates_def)

lemma kind_stateOf: "kind (stateOf k) = k"
  by (cases k) (simp_all add: stateOf_def validLexerStates_def)

lemma start_state: "validLexerStates ! 0 = stateOf tUNKNOWN"
  by (simp add: stateOf_def validLexerStates_def)

lemma loop_ok:
  "(checkExpressionSyntaxLoop (stateOf k0) lastToken tokens = Inr s) \<longleftrightarrow>
     ((\<forall>i<length tokens. legalTransition ((k0 # map Kind tokens) ! i) (Kind (tokens ! i)))
      \<and> (\<forall>t\<in>set tokens. valueOk t)
      \<and> s = stateOf (last (k0 # map Kind tokens)))"
proof (induction tokens arbitrary: k0 lastToken)
  case Nil
  then show ?case by auto
next
  case (Cons t ts)
  show ?case
    apply (simp add: getLexerStateForToken_stateOf Cons.IH legalTransition_def valueOk_def
        split: val.splits)
    apply (auto simp: nth_Cons less_Suc_eq_0_disj split: nat.splits)
    done
qed

lemma loop_illegal:
  assumes "i < length tokens"
    and "\<forall>j<i. legalTransition ((k0 # map Kind tokens) ! j) (Kind (tokens ! j))
                \<and> valueOk (tokens ! j)"
    and "\<not> legalTransition ((k0 # map Kind tokens) ! i) (Kind (tokens ! i))"
    and "Kind lastToken = k0"
  shows "checkExpressionSyntaxLoop (stateOf k0) lastToken tokens =
     (let prev = (lastToken # tokens) ! i; token = tokens ! i in
      if Kind prev = tVARIABLE \<and> Kind token = tCLAUSE then
           (case Value prev of
              VString name \<Rightarrow> Inl (errorsNew (''Undefined function '' @ name))
            | _ \<Rightarrow> Inl (panic ''interface conversion: interface {} is not string''))
      else Inl (errorf ''Cannot transition token types from %s [%v] to %s [%v]''
                  [VString (tString (Kind prev)), Value prev,
                   VString (tString (Kind token)), Value token]))"
  using assms
proof (induction tokens arbitrary: i k0 lastToken)
  case Nil
  then show ?case by simp
next
  case (Cons t ts)
  show ?case
  proof (cases i)
    case 0
    with Cons.prems show ?thesis
      by (simp add: legalTransition_def kind_stateOf)
  next
    case (Suc n)
    from Cons.prems(2) Suc have h0: "legalTransition k0 (Kind t)" "valueOk t"
      by auto
    have h1: "n < length ts" using Cons.prems(1) Suc by simp
    have h2: "\<forall>j<n. legalTransition ((Kind t # map Kind ts) ! j) (Kind (ts ! j)) \<and> valueOk (ts ! j)"
    proof (intro allI impI)
      fix j assume "j < n"
      then have "Suc j < i" using Suc by simp
      with Cons.prems(2) show "legalTransition ((Kind t # map Kind ts) ! j) (Kind (ts ! j)) \<and> valueOk (ts ! j)"
        by fastforce
    qed
    have h3: "\<not> legalTransition ((Kind t # map Kind ts) ! n) (Kind (ts ! n))"
      using Cons.prems(3) Suc by simp
    have "checkExpressionSyntaxLoop (stateOf k0) lastToken (t # ts) =
          checkExpressionSyntaxLoop (stateOf (Kind t)) t ts"
      using h0 by (auto simp: legalTransition_def valueOk_def getLexerStateForToken_stateOf)
    then show ?thesis
      using Cons.IH[OF h1 h2 h3, of t] Suc by simp
  qed
qed

text \<open>
  Claim C4. For every token list, \<open>checkExpressionSyntax\<close> accepts (returns no error) if and
  only if every adjacent pair of kinds along the chain that starts at the \<open>tUNKNOWN\<close> row is
  a legal transition of the state table, every token of a non-nullable kind carries a non-nil
  value, and the row of the last kind has \<open>isEOF\<close>. At the first illegal transition the
  error is \<open>Undefined function <name>\<close> when a \<open>tVARIABLE\<close> token (carrying the string
  \<open>name\<close>) is followed by a \<open>tCLAUSE\<close> token, and otherwise
  \<open>Cannot transition token types from <state> [<value>] to <kind> [<value>]\<close>; when every
  token passes and the final row is not an end row, the error is
  \<open>Unexpected end of expression\<close>.
\<close>

theorem checkExpressionSyntax_accepts_iff_table:
  fixes tokens :: "('n, 'p) tExpressionToken list"
  shows
  "(checkExpressionSyntax tokens = None \<longleftrightarrow>
      (\<forall>i<length tokens. legalTransition (kindChain tokens ! i) (Kind (tokens ! i)))
      \<and> (\<forall>t\<in>set tokens. \<not> isNullable (stateOf (Kind t)) \<longrightarrow> Value t \<noteq> VNil)
      \<and> isEOF (stateOf (last (kindChain tokens))))
   \<and> (\<forall>i name. i < length tokens \<and> passesUpTo tokens i
          \<and> \<not> legalTransition (kindChain tokens ! i) (Kind (tokens ! i))
          \<and> 0 < i \<and> Kind (tokens ! (i - 1)) = tVARIABLE \<and> Kind (tokens ! i) = tCLAUSE
          \<and> Value (tokens ! (i - 1)) = VString name
        \<longrightarrow> checkExpressionSyntax tokens = Some (errorsNew (''Undefined function '' @ name)))
   \<and> (\<forall>i. i < length tokens \<and> passesUpTo tokens i
          \<and> \<not> legalTransition (kindChain tokens ! i) (Kind (tokens ! i))
          \<and> \<not> (Kind ((zeroToken # tokens) ! i) = tVARIABLE \<and> Kind (tokens ! i) = tCLAUSE)
        \<longrightarrow> checkExpressionSyntax tokens =
              Some (errorf ''Cannot transition token types from %s [%v] to %s [%v]''
                  [VString (tString (kindChain tokens ! i)), Value ((zeroToken # tokens) ! i),
                   VString (tString (Kind (tokens ! i))), Value (tokens ! i)]))
   \<and> (passesUpTo tokens (length tokens) \<and> \<not> isEOF (stateOf (last (kindChain tokens)))
        \<longrightarrow> checkExpressionSyntax tokens = Some (errorsNew ''Unexpected end of expression''))"
proof (intro conjI allI impI)
  show "checkExpressionSyntax tokens = None \<longleftrightarrow>
      (\<forall>i<length tokens. legalTransition (kindChain tokens ! i) (Kind (tokens ! i)))
      \<and> (\<forall>t\<in>set tokens. \<not> isNullable (stateOf (Kind t)) \<longrightarrow> Value t \<noteq> VNil)
      \<and> isEOF (stateOf (last (kindChain tokens)))"
  proof (cases "checkExpressionSyntaxLoop (stateOf tUNKNOWN) zeroToken tokens")
    case (Inl e)
    then have "\<not> ((\<forall>i<length tokens. legalTransition ((tUNKNOWN # map Kind tokens) ! i) (Kind (tokens ! i)))
      \<and> (\<forall>t\<in>set tokens. valueOk t))"
      using loop_ok[of tUNKNOWN zeroToken tokens "stateOf (last (tUNKNOWN # map Kind tokens))"]
      by auto
    with Inl show ?thesis
      by (auto simp: checkExpressionSyntax_def start_state kindChain_def valueOk_def)
  next
    case (Inr s)
    then show ?thesis
      using loop_ok[of tUNKNOWN zeroToken tokens s]
      by (auto simp: checkExpressionSyntax_def start_state kindChain_def valueOk_def)
  qed
next
  fix i name
  assume a: "i < length tokens \<and> passesUpTo tokens i
          \<and> \<not> legalTransition (kindChain tokens ! i) (Kind (tokens ! i))
          \<and> 0 < i \<and> Kind (tokens ! (i - 1)) = tVARIABLE \<and> Kind (tokens ! i) = tCLAUSE
          \<and> Value (tokens ! (i - 1)) = VString name"
  then have p: "(zeroToken # tokens) ! i = tokens ! (i - 1)"
    by (cases i) auto
  have h1: "i < length tokens" using a by simp
  have "passesUpTo tokens i" using a by blast
  then have h2: "\<forall>j<i. legalTransition ((tUNKNOWN # map Kind tokens) ! j) (Kind (tokens ! j))
                \<and> valueOk (tokens ! j)"
    unfolding passesUpTo_def kindChain_def .
  have "\<not> legalTransition (kindChain tokens ! i) (Kind (tokens ! i))" using a by blast
  then have h3: "\<not> legalTransition ((tUNKNOWN # map Kind tokens) ! i) (Kind (tokens ! i))"
    unfolding kindChain_def .
  have h4: "Kind (zeroToken :: ('n, 'p) tExpressionToken) = tUNKNOWN"
    by (simp add: zeroToken_def)
  show "checkExpressionSyntax tokens = Some (errorsNew (''Undefined function '' @ name))"
    using loop_illegal[OF h1 h2 h3 h4] a
    by (simp add: checkExpressionSyntax_def start_state p)
next
  fix i
  assume a: "i < length tokens \<and> passesUpTo tokens i
          \<and> \<not> legalTransition (kindChain tokens ! i) (Kind (tokens ! i))
          \<and> \<not> (Kind ((zeroToken # tokens) ! i) = tVARIABLE \<and> Kind (tokens ! i) = tCLAUSE)"
  have k: "Kind ((zeroToken # tokens) ! i) = kindChain tokens ! i"
    using a by (cases i) (auto simp: kindChain_def zeroToken_def)
  have h1: "i < length tokens" using a by simp
  have "passesUpTo tokens i" using a by blast
  then have h2: "\<forall>j<i. legalTransition ((tUNKNOWN # map Kind tokens) ! j) (Kind (tokens ! j))
                \<and> valueOk (tokens ! j)"
    unfolding passesUpTo_def kindChain_def .
  have "\<not> legalTransition (kindChain tokens ! i) (Kind (tokens ! i))" using a by blast
  then have h3: "\<not> legalTransition ((tUNKNOWN # map Kind tokens) ! i) (Kind (tokens ! i))"
    unfolding kindChain_def .
  have h4: "Kind (zeroToken :: ('n, 'p) tExpressionToken) = tUNKNOWN"
    by (simp add: zeroToken_def)
  have n: "\<not> (Kind ((zeroToken # tokens) ! i) = tVARIABLE \<and> Kind (tokens ! i) = tCLAUSE)"
    using a by simp
  show "checkExpressionSyntax tokens =
              Some (errorf ''Cannot transition token types from %s [%v] to %s [%v]''
                  [VString (tString (kindChain tokens ! i)), Value ((zeroToken # tokens) ! i),
                   VString (tString (Kind (tokens ! i))), Value (tokens ! i)])"
  proof -
    have "checkExpressionSyntaxLoop (stateOf tUNKNOWN) zeroToken tokens =
       Inl (errorf ''Cannot transition token types from %s [%v] to %s [%v]''
                  [VString (tString (Kind ((zeroToken # tokens) ! i))),
                   Value ((zeroToken # tokens) ! i),
                   VString (tString (Kind (tokens ! i))), Value (tokens ! i)])"
      using loop_illegal[OF h1 h2 h3 h4] n by (auto simp: Let_def)
    then show ?thesis
      by (simp add: checkExpressionSyntax_def start_state k)
  qed
next
  assume a: "passesUpTo tokens (length tokens) \<and> \<not> isEOF (stateOf (last (kindChain tokens)))"
  then have "checkExpressionSyntaxLoop (stateOf tUNKNOWN) zeroToken tokens
      = Inr (stateOf (last (tUNKNOWN # map Kind tokens)))"
    using loop_ok[of tUNKNOWN zeroToken tokens "stateOf (last (tUNKNOWN # map Kind tokens))"]
    by (auto simp: passesUpTo_def kindChain_def in_set_conv_nth)
  with a show "checkExpressionSyntax tokens = Some (errorsNew ''Unexpected end of expression'')"
    by (simp add: checkExpressionSyntax_def start_state kindChain_def)
qed

text \<open>
  The theorem at four token lists: \<open>1 + 2\<close> is accepted; \<open>foo(\<close> is an undefined
  function; \<open>+ 1\<close> cannot leave the start row; \<open>1 +\<close> ends too early.
\<close>

theorem checkExpressionSyntax_accepts_iff_table_witness:
  "checkExpressionSyntax
     [\<lparr>Kind = tNUMERIC, Value = VFloat (1::int)\<rparr>, \<lparr>Kind = tMODIFIER, Value = VString ''+''\<rparr>,
      \<lparr>Kind = tNUMERIC, Value = (VFloat 2 :: (int, string) val)\<rparr>] = None
   \<and> checkExpressionSyntax
     [\<lparr>Kind = tVARIABLE, Value = VString ''foo''\<rparr>,
      \<lparr>Kind = tCLAUSE, Value = (VRune CHR ''('' :: (int, string) val)\<rparr>]
       = Some (errorsNew ''Undefined function foo'')
   \<and> checkExpressionSyntax
     [\<lparr>Kind = tMODIFIER, Value = VString ''+''\<rparr>,
      \<lparr>Kind = tNUMERIC, Value = (VFloat 1 :: (int, string) val)\<rparr>]
       = Some (errorf ''Cannot transition token types from %s [%v] to %s [%v]''
                [VString ''tUNKNOWN'', VNil, VString ''tMODIFIER'', VString ''+''])
   \<and> checkExpressionSyntax
     [\<lparr>Kind = tNUMERIC, Value = VFloat (1::int)\<rparr>,
      \<lparr>Kind = tMODIFIER, Value = (VString ''+'' :: (int, string) val)\<rparr>]
       = Some (errorsNew ''Unexpected end of expression'')"
  using checkExpressionSyntax_accepts_iff_table
          [of "[\<lparr>Kind = tNUMERIC, Value = VFloat (1::int)\<rparr>,
                \<lparr>Kind = tMODIFIER, Value = VString ''+''\<rparr>,
                \<lparr>Kind = tNUMERIC, Value = (VFloat 2 :: (int, string) val)\<rparr>]"]
        checkExpressionSyntax_accepts_iff_table
          [of "[\<lparr>Kind = tVARIABLE, Value = VString ''foo''\<rparr>,
                \<lparr>Kind = tCLAUSE, Value = (VRune CHR ''('' :: (int, string) val)\<rparr>]"]
        checkExpressionSyntax_accepts_iff_table
          [of "[\<lparr>Kind = tMODIFIER, Value = VString ''+''\<rparr>,
                \<lparr>Kind = tNUMERIC, Value = (VFloat 1 :: (int, string) val)\<rparr>]"]
        checkExpressionSyntax_accepts_iff_table
          [of "[\<lparr>Kind = tNUMERIC, Value = VFloat (1::int)\<rparr>,
                \<lparr>Kind = tMODIFIER, Value = (VString ''+'' :: (int, string) val)\<rparr>]"]
  by (simp add: checkExpressionSyntax_def validLexerStates_def zeroToken_def
        canTransitionTo_def getLexerStateForToken_def)

section \<open>The token optimizer (\<^verbatim>\<open>optimizeTokens\<close>)\<close>

text \<open>
  The symbol maps of \<^verbatim>\<open>core/OperatorSymbol.go\<close> are association lists; a lookup
  returns the symbol and whether the key was found, the zero symbol \<open>tVALUE\<close> when it was
  not. \<open>assertString\<close> is the type assertion \<^verbatim>\<open>v.(string)\<close>: \<open>None\<close> is its panic.
\<close>

definition comparatorSymbols :: "(string \<times> tOperatorSymbol) list" where
  "comparatorSymbols =
     [(''=='', tEQ), (''!='', tNEQ), (''>'', tGT), (''>='', tGTE), (''<'', tLT), (''<='', tLTE),
      (''=~'', tREQ), (''!~'', tNREQ), (''in'', tIN)]"

definition lookupSymbol ::
  "(string \<times> tOperatorSymbol) list \<Rightarrow> string \<Rightarrow> tOperatorSymbol \<times> bool" where
  "lookupSymbol symbols key =
     (case map_of symbols key of Some symbol \<Rightarrow> (symbol, True) | None \<Rightarrow> (tVALUE, False))"

definition assertString :: "('n, 'p) val \<Rightarrow> string option" where
  "assertString v = (case v of VString s \<Rightarrow> Some s | _ \<Rightarrow> None)"

text \<open>
  One iteration of the loop of \<^verbatim>\<open>optimizeTokens\<close> at range index \<open>index\<close>: the
  token list after the iteration and the error the function returns there, if any. The
  library function \<^verbatim>\<open>regexp.Compile\<close> is the parameter \<open>regexpCompile\<close>: it
  returns a compiled pattern, or the text of its error. The access \<^verbatim>\<open>tokens[index]\<close>
  after \<^verbatim>\<open>index++\<close> panics when the index is the length of the slice.
\<close>

definition optimizeTokensBody ::
  "(string \<Rightarrow> string + 'p) \<Rightarrow> nat \<Rightarrow> ('n, 'p) tExpressionToken list
     \<Rightarrow> ('n, 'p) tExpressionToken list \<times> ('n, 'p) error option" where
  "optimizeTokensBody regexpCompile index tokens =
     (let token = tokens ! index in
      if Kind token \<noteq> tCOMPARATOR then (tokens, None)
      else
        (case assertString (Value token) of
           None \<Rightarrow> (tokens, Some (panic ''interface conversion: interface {} is not string''))
         | Some lexeme \<Rightarrow>
             let symbol = fst (lookupSymbol comparatorSymbols lexeme) in
             if symbol \<noteq> tREQ \<and> symbol \<noteq> tNREQ then (tokens, None)
             else if length tokens \<le> Suc index then
               (tokens, Some (panic ''index out of range''))
             else
               let token = tokens ! Suc index in
               if Kind token = tSTRING then
                 (case assertString (Value token) of
                    None \<Rightarrow>
                      (tokens,
                       Some (panic ''interface conversion: interface {} is not string''))
                  | Some source \<Rightarrow>
                      (case regexpCompile source of
                         Inl err \<Rightarrow> (tokens, Some (externalError err))
                       | Inr pattern \<Rightarrow>
                           (tokens[Suc index :=
                              token\<lparr>Kind := tPATTERN, Value := VPattern pattern\<rparr>], None)))
               else (tokens, None)))"

lemma length_optimizeTokensBody [simp]:
  "length (fst (optimizeTokensBody regexpCompile index tokens)) = length tokens"
  by (simp add: optimizeTokensBody_def Let_def split: option.splits sum.splits)

lemma length_optimizeTokensBody_eq:
  "(tokens', r) = optimizeTokensBody regexpCompile index tokens \<Longrightarrow>
     length tokens' = length tokens"
  using length_optimizeTokensBody[of regexpCompile index tokens] by (metis fst_conv)

text \<open>
  The \<^verbatim>\<open>range\<close> loop: it runs over the indices of the slice, reads each token from the
  slice as the earlier iterations left it, and stops at the first error.
\<close>

function optimizeTokensFrom ::
  "(string \<Rightarrow> string + 'p) \<Rightarrow> nat \<Rightarrow> ('n, 'p) tExpressionToken list
     \<Rightarrow> ('n, 'p) tExpressionToken list \<times> ('n, 'p) error option" where
  "optimizeTokensFrom regexpCompile index tokens =
     (if length tokens \<le> index then (tokens, None)
      else
        (case optimizeTokensBody regexpCompile index tokens of
           (tokens', Some err) \<Rightarrow> (tokens', Some err)
         | (tokens', None) \<Rightarrow> optimizeTokensFrom regexpCompile (Suc index) tokens'))"
  by pat_completeness auto
termination
  by (relation "measure (\<lambda>(regexpCompile, index, tokens). length tokens - index)")
     (auto dest!: length_optimizeTokensBody_eq)

declare optimizeTokensFrom.simps [simp del]

definition optimizeTokens ::
  "(string \<Rightarrow> string + 'p) \<Rightarrow> ('n, 'p) tExpressionToken list
     \<Rightarrow> ('n, 'p) tExpressionToken list \<times> ('n, 'p) error option" where
  "optimizeTokens regexpCompile tokens = optimizeTokensFrom regexpCompile 0 tokens"

definition comparatorNotLast :: "('n, 'p) tExpressionToken list \<Rightarrow> bool" where
  "comparatorNotLast tokens =
     (\<forall>i<length tokens. Kind (tokens ! i) = tCOMPARATOR \<longrightarrow> Suc i < length tokens)"

lemma comparatorNotLast_update:
  assumes "comparatorNotLast tokens" and "Kind t \<noteq> tCOMPARATOR"
  shows "comparatorNotLast (tokens[j := t])"
  unfolding comparatorNotLast_def
proof (intro allI impI)
  fix i assume i: "i < length (tokens[j := t])" and k: "Kind (tokens[j := t] ! i) = tCOMPARATOR"
  have "i \<noteq> j" using i k assms(2) by auto
  then have "Kind (tokens ! i) = tCOMPARATOR" using k by simp
  then show "Suc i < length (tokens[j := t])"
    using assms(1) i by (simp add: comparatorNotLast_def)
qed

lemma body_comparatorNotLast:
  "comparatorNotLast tokens \<Longrightarrow>
     comparatorNotLast (fst (optimizeTokensBody regexpCompile index tokens))"
  by (simp add: optimizeTokensBody_def Let_def comparatorNotLast_update
      split: option.splits sum.splits)

lemma body_in_bounds:
  "comparatorNotLast tokens \<Longrightarrow> index < length tokens \<Longrightarrow>
     snd (optimizeTokensBody regexpCompile index tokens) \<noteq> Some (panic ''index out of range'')"
  by (auto simp add: optimizeTokensBody_def Let_def comparatorNotLast_def
      split: option.splits sum.splits)

lemma optimizeTokensFrom_in_bounds:
  "comparatorNotLast tokens \<Longrightarrow>
     snd (optimizeTokensFrom regexpCompile index tokens) \<noteq> Some (panic ''index out of range'')"
proof (induction regexpCompile index tokens rule: optimizeTokensFrom.induct)
  case (1 regexpCompile index tokens)
  show ?case
  proof (cases "length tokens \<le> index")
    case True
    then show ?thesis by (subst optimizeTokensFrom.simps) simp
  next
    case False
    obtain tokens' r where b: "optimizeTokensBody regexpCompile index tokens = (tokens', r)"
      by (cases "optimizeTokensBody regexpCompile index tokens")
    have c: "comparatorNotLast tokens'"
      using body_comparatorNotLast[OF "1.prems", of regexpCompile index] b by simp
    have nb: "r \<noteq> Some (panic ''index out of range'')"
      using body_in_bounds[OF "1.prems", of index regexpCompile] False b by simp
    show ?thesis
    proof (cases r)
      case None
      then show ?thesis
        using "1.IH"[OF False b[symmetric] None c] False b
        by (subst optimizeTokensFrom.simps) simp
    next
      case (Some e)
      then show ?thesis
        using nb False b by (subst optimizeTokensFrom.simps) simp
    qed
  qed
qed

lemma syntax_ok_eof:
  assumes "checkExpressionSyntax tokens = None"
  shows "isEOF (stateOf (last (kindChain tokens)))"
proof (cases "checkExpressionSyntaxLoop (stateOf tUNKNOWN) zeroToken tokens")
  case (Inl e)
  with assms show ?thesis by (simp add: checkExpressionSyntax_def start_state)
next
  case (Inr st)
  then have "st = stateOf (last (kindChain tokens))"
    using loop_ok[of tUNKNOWN zeroToken tokens st] by (simp add: kindChain_def)
  with Inr assms show ?thesis
    by (simp add: checkExpressionSyntax_def start_state split: if_splits)
qed

lemma syntax_comparatorNotLast:
  assumes "checkExpressionSyntax tokens = None"
  shows "comparatorNotLast tokens"
  unfolding comparatorNotLast_def
proof (intro allI impI)
  fix i assume i: "i < length tokens" and k: "Kind (tokens ! i) = tCOMPARATOR"
  show "Suc i < length tokens"
  proof (rule ccontr)
    assume "\<not> Suc i < length tokens"
    with i have "i = length tokens - 1" "tokens \<noteq> []" by auto
    then have "last (kindChain tokens) = tCOMPARATOR"
      using k by (simp add: kindChain_def last_map last_conv_nth)
    with syntax_ok_eof[OF assms] show False
      by (simp add: stateOf_def validLexerStates_def)
  qed
qed

text \<open>
  Claim C10. When the token list passed \<open>checkExpressionSyntax\<close>, the access
  \<^verbatim>\<open>tokens[index]\<close> that \<open>optimizeTokens\<close> makes after stepping past a \<open>=~\<close> or
  \<open>!~\<close> comparator is within bounds: the function never ends in the index-out-of-range
  panic. (A comparator is never the last token: its row has \<open>isEOF = False\<close>.)
\<close>

theorem optimizeTokens_index_in_bounds:
  "checkExpressionSyntax tokens = None \<Longrightarrow>
     snd (optimizeTokens regexpCompile tokens) \<noteq> Some (panic ''index out of range'')"
  unfolding optimizeTokens_def
  by (rule optimizeTokensFrom_in_bounds) (rule syntax_comparatorNotLast)

text \<open>The theorem at the tokens of \<open>x =~ 'a'\<close>.\<close>

theorem optimizeTokens_index_in_bounds_witness:
  "checkExpressionSyntax
      [\<lparr>Kind = tVARIABLE, Value = VString ''x''\<rparr>, \<lparr>Kind = tCOMPARATOR, Value = VString ''=~''\<rparr>,
       \<lparr>Kind = tSTRING, Value = (VString ''a'' :: (int, string) val)\<rparr>] = None
   \<and> snd (optimizeTokens Inr
      [\<lparr>Kind = tVARIABLE, Value = VString ''x''\<rparr>, \<lparr>Kind = tCOMPARATOR, Value = VString ''=~''\<rparr>,
       \<lparr>Kind = tSTRING, Value = (VString ''a'' :: (int, string) val)\<rparr>])
       \<noteq> Some (panic ''index out of range'')"
proof -
  have h: "checkExpressionSyntax
      [\<lparr>Kind = tVARIABLE, Value = VString ''x''\<rparr>, \<lparr>Kind = tCOMPARATOR, Value = VString ''=~''\<rparr>,
       \<lparr>Kind = tSTRING, Value = (VString ''a'' :: (int, string) val)\<rparr>] = None"
    by (simp add: checkExpressionSyntax_def validLexerStates_def zeroToken_def
        canTransitionTo_def getLexerStateForToken_def)
  show ?thesis
    using h optimizeTokens_index_in_bounds[OF h, of Inr] by simp
qed

text \<open>
  The tokens the optimizer rewrites. Position \<open>i\<close> is a \<open>regexFollower\<close> when its token is
  a \<open>tSTRING\<close> and the token before it is a \<open>tCOMPARATOR\<close> with value \<open>=~\<close> or \<open>!~\<close>.
  \<open>patternToken\<close> is the \<open>tPATTERN\<close> token carrying the compiled string of a token, when
  the string compiles. \<open>lexemeTyped\<close> is the data model of the token values: a comparator
  carries its lexeme and a string token its text, both strings (as the lexer builds them).
\<close>

definition isRegexComparator :: "('n, 'p) tExpressionToken \<Rightarrow> bool" where
  "isRegexComparator t =
     (Kind t = tCOMPARATOR \<and> (Value t = VString ''=~'' \<or> Value t = VString ''!~''))"

definition regexFollower :: "('n, 'p) tExpressionToken list \<Rightarrow> nat \<Rightarrow> bool" where
  "regexFollower tokens i =
     (0 < i \<and> i < length tokens \<and> isRegexComparator (tokens ! (i - 1))
      \<and> Kind (tokens ! i) = tSTRING)"

definition patternToken ::
  "(string \<Rightarrow> string + 'p) \<Rightarrow> ('n, 'p) tExpressionToken
     \<Rightarrow> ('n, 'p) tExpressionToken option" where
  "patternToken regexpCompile t =
     (case Value t of
        VString source \<Rightarrow>
          (case regexpCompile source of
             Inr pattern \<Rightarrow> Some \<lparr>Kind = tPATTERN, Value = VPattern pattern\<rparr>
           | Inl err \<Rightarrow> None)
      | _ \<Rightarrow> None)"

definition lexemeTyped :: "('n, 'p) tExpressionToken list \<Rightarrow> bool" where
  "lexemeTyped tokens =
     (\<forall>t\<in>set tokens. (Kind t = tCOMPARATOR \<or> Kind t = tSTRING) \<longrightarrow> isString (Value t))"

lemma regex_symbol_iff:
  "(fst (lookupSymbol comparatorSymbols lexeme) \<noteq> tREQ
      \<and> fst (lookupSymbol comparatorSymbols lexeme) \<noteq> tNREQ)
    \<longleftrightarrow> \<not> (lexeme = ''=~'' \<or> lexeme = ''!~'')"
  by (simp add: lookupSymbol_def comparatorSymbols_def)

lemma isString_assert: "isString v \<Longrightarrow> \<exists>s. v = VString s \<and> assertString v = Some s"
  by (cases v) (simp_all add: assertString_def)

lemma body_not_regex:
  assumes "index < length tokens" "lexemeTyped tokens"
    and "\<not> isRegexComparator (tokens ! index)"
  shows "optimizeTokensBody regexpCompile index tokens = (tokens, None)"
proof (cases "Kind (tokens ! index) = tCOMPARATOR")
  case False
  then show ?thesis by (simp add: optimizeTokensBody_def)
next
  case True
  then have "isString (Value (tokens ! index))"
    using assms(1,2) by (auto simp: lexemeTyped_def)
  then obtain s where s: "Value (tokens ! index) = VString s"
    "assertString (Value (tokens ! index)) = Some s"
    using isString_assert by blast
  with True assms(3) have "\<not> (s = ''=~'' \<or> s = ''!~'')"
    by (simp add: isRegexComparator_def)
  then show ?thesis
    using True s regex_symbol_iff[of s]
    by (simp add: optimizeTokensBody_def Let_def)
qed

lemma token_update_all:
  "(t :: ('n, 'p) tExpressionToken)\<lparr>Kind := k, Value := v\<rparr> = \<lparr>Kind = k, Value = v\<rparr>"
  by (cases t) simp

lemma body_regex:
  assumes "Suc index < length tokens" "lexemeTyped tokens"
    and "isRegexComparator (tokens ! index)"
  shows "optimizeTokensBody regexpCompile index tokens =
     (if Kind (tokens ! Suc index) = tSTRING then
        (case Value (tokens ! Suc index) of
           VString source \<Rightarrow>
             (case regexpCompile source of
                Inl err \<Rightarrow> (tokens, Some (externalError err))
              | Inr pattern \<Rightarrow>
                  (tokens[Suc index := \<lparr>Kind = tPATTERN, Value = VPattern pattern\<rparr>], None))
         | _ \<Rightarrow> (tokens, None))
      else (tokens, None))"
proof -
  obtain s where s: "Value (tokens ! index) = VString s" "s = ''=~'' \<or> s = ''!~''"
    using assms(3) by (auto simp: isRegexComparator_def)
  have k: "Kind (tokens ! index) = tCOMPARATOR"
    using assms(3) by (simp add: isRegexComparator_def)
  have sym: "\<not> (fst (lookupSymbol comparatorSymbols s) \<noteq> tREQ
      \<and> fst (lookupSymbol comparatorSymbols s) \<noteq> tNREQ)"
    using regex_symbol_iff[of s] s(2) by blast
  show ?thesis
  proof (cases "Kind (tokens ! Suc index) = tSTRING")
    case False
    then show ?thesis
      using k s(1) sym assms(1)
      by (simp add: optimizeTokensBody_def Let_def assertString_def)
  next
    case True
    then have "isString (Value (tokens ! Suc index))"
      using assms(1,2) by (auto simp: lexemeTyped_def)
    then obtain src where src: "Value (tokens ! Suc index) = VString src"
      "assertString (Value (tokens ! Suc index)) = Some src"
      using isString_assert by blast
    show ?thesis
      using k s(1) sym assms(1) True src
      by (auto simp add: optimizeTokensBody_def Let_def token_update_all assertString_def
          split: sum.splits)
  qed
qed

lemma lexemeTyped_update:
  "lexemeTyped tokens \<Longrightarrow> Kind t = tPATTERN \<Longrightarrow> lexemeTyped (tokens[k := t])"
  unfolding lexemeTyped_def
  using set_update_subset_insert[of tokens k t] by auto

lemma regexFollower_update:
  assumes "Kind (tokens ! k) = tSTRING" "Kind t = tPATTERN" "j \<noteq> k"
  shows "regexFollower (tokens[k := t]) j = regexFollower tokens j"
proof (cases "k < length tokens")
  case False
  then show ?thesis by (simp add: not_less list_update_beyond)
next
  case True
  have a: "isRegexComparator ((tokens[k := t]) ! (j - 1)) = isRegexComparator (tokens ! (j - 1))"
    using assms True by (cases "j - 1 = k") (auto simp: isRegexComparator_def)
  show ?thesis
    using assms(3) a by (simp add: regexFollower_def)
qed

lemma optimizeTokensFrom_success:
  assumes "lexemeTyped tokens" "comparatorNotLast tokens"
    and "\<forall>j. index < j \<and> regexFollower tokens j \<longrightarrow> patternToken regexpCompile (tokens ! j) \<noteq> None"
  shows "\<exists>tokens'. optimizeTokensFrom regexpCompile index tokens = (tokens', None)
      \<and> length tokens' = length tokens
      \<and> (\<forall>j<length tokens.
            (index < j \<and> regexFollower tokens j
               \<longrightarrow> patternToken regexpCompile (tokens ! j) = Some (tokens' ! j))
          \<and> (\<not> (index < j \<and> regexFollower tokens j) \<longrightarrow> tokens' ! j = tokens ! j))"
  using assms
proof (induction regexpCompile index tokens rule: optimizeTokensFrom.induct)
  case (1 regexpCompile index tokens)
  show ?case
  proof (cases "length tokens \<le> index")
    case True
    then show ?thesis by (subst optimizeTokensFrom.simps) simp
  next
    case False
    then have idx: "index < length tokens" by simp
    show ?thesis
    proof (cases "isRegexComparator (tokens ! index) \<and> Kind (tokens ! Suc index) = tSTRING")
      case nf: False
      have nofollow: "\<not> regexFollower tokens (Suc index)"
        using nf by (simp add: regexFollower_def)
      have b: "optimizeTokensBody regexpCompile index tokens = (tokens, None)"
      proof (cases "isRegexComparator (tokens ! index)")
        case False
        then show ?thesis using body_not_regex[OF idx "1.prems"(1)] by simp
      next
        case True
        then have "Kind (tokens ! index) = tCOMPARATOR" by (simp add: isRegexComparator_def)
        then have "Suc index < length tokens"
          using "1.prems"(2) idx by (simp add: comparatorNotLast_def)
        then show ?thesis using body_regex[OF _ "1.prems"(1) True] nf True by simp
      qed
      have p3: "\<forall>j. Suc index < j \<and> regexFollower tokens j
                  \<longrightarrow> patternToken regexpCompile (tokens ! j) \<noteq> None"
        using "1.prems"(3) by auto
      obtain tokens' where t: "optimizeTokensFrom regexpCompile (Suc index) tokens = (tokens', None)"
        "length tokens' = length tokens"
        "\<forall>j<length tokens.
            (Suc index < j \<and> regexFollower tokens j
               \<longrightarrow> patternToken regexpCompile (tokens ! j) = Some (tokens' ! j))
          \<and> (\<not> (Suc index < j \<and> regexFollower tokens j) \<longrightarrow> tokens' ! j = tokens ! j)"
        using "1.IH"[OF False b[symmetric] refl "1.prems"(1,2) p3] by blast
      have r: "optimizeTokensFrom regexpCompile index tokens = (tokens', None)"
        using False b t(1) by (subst optimizeTokensFrom.simps) simp
      have "\<forall>j<length tokens.
            (index < j \<and> regexFollower tokens j
               \<longrightarrow> patternToken regexpCompile (tokens ! j) = Some (tokens' ! j))
          \<and> (\<not> (index < j \<and> regexFollower tokens j) \<longrightarrow> tokens' ! j = tokens ! j)"
      proof (intro allI impI)
        fix j assume j: "j < length tokens"
        show "(index < j \<and> regexFollower tokens j
               \<longrightarrow> patternToken regexpCompile (tokens ! j) = Some (tokens' ! j))
          \<and> (\<not> (index < j \<and> regexFollower tokens j) \<longrightarrow> tokens' ! j = tokens ! j)"
          using t(3) j nofollow by (cases "j = Suc index") auto
      qed
      with r t(2) show ?thesis by blast
    next
      case fo: True
      then have "Kind (tokens ! index) = tCOMPARATOR" by (simp add: isRegexComparator_def)
      then have sidx: "Suc index < length tokens"
        using "1.prems"(2) idx by (simp add: comparatorNotLast_def)
      have follow: "regexFollower tokens (Suc index)"
        using fo sidx by (simp add: regexFollower_def)
      then have "patternToken regexpCompile (tokens ! Suc index) \<noteq> None"
        using "1.prems"(3) by simp
      then obtain src pat where sp: "Value (tokens ! Suc index) = VString src"
        "regexpCompile src = Inr pat"
        "patternToken regexpCompile (tokens ! Suc index)
           = Some \<lparr>Kind = tPATTERN, Value = VPattern pat\<rparr>"
        by (auto simp: patternToken_def split: val.splits sum.splits)
      define tokens1 where "tokens1 = tokens[Suc index := \<lparr>Kind = tPATTERN, Value = VPattern pat\<rparr>]"
      have b: "optimizeTokensBody regexpCompile index tokens = (tokens1, None)"
        using body_regex[OF sidx "1.prems"(1), of regexpCompile] fo sp
        by (simp add: tokens1_def)
      have ty1: "lexemeTyped tokens1"
        unfolding tokens1_def by (rule lexemeTyped_update[OF "1.prems"(1)]) simp
      have cn1: "comparatorNotLast tokens1"
        unfolding tokens1_def by (rule comparatorNotLast_update[OF "1.prems"(2)]) simp
      have fu: "\<And>j. j \<noteq> Suc index \<Longrightarrow> regexFollower tokens1 j = regexFollower tokens j"
        unfolding tokens1_def using regexFollower_update[of tokens "Suc index"] fo by simp
      have nth1: "\<And>j. j \<noteq> Suc index \<Longrightarrow> tokens1 ! j = tokens ! j"
        unfolding tokens1_def by simp
      have p3: "\<forall>j. Suc index < j \<and> regexFollower tokens1 j
                  \<longrightarrow> patternToken regexpCompile (tokens1 ! j) \<noteq> None"
        using "1.prems"(3) fu nth1 by auto
      obtain tokens' where t: "optimizeTokensFrom regexpCompile (Suc index) tokens1 = (tokens', None)"
        "length tokens' = length tokens1"
        "\<forall>j<length tokens1.
            (Suc index < j \<and> regexFollower tokens1 j
               \<longrightarrow> patternToken regexpCompile (tokens1 ! j) = Some (tokens' ! j))
          \<and> (\<not> (Suc index < j \<and> regexFollower tokens1 j) \<longrightarrow> tokens' ! j = tokens1 ! j)"
        using "1.IH"[OF False b[symmetric] refl ty1 cn1 p3] by blast
      have len1: "length tokens1 = length tokens" by (simp add: tokens1_def)
      have r: "optimizeTokensFrom regexpCompile index tokens = (tokens', None)"
        using False b t(1) by (subst optimizeTokensFrom.simps) simp
      have at: "tokens1 ! Suc index = \<lparr>Kind = tPATTERN, Value = VPattern pat\<rparr>"
        using sidx by (simp add: tokens1_def)
      have "\<forall>j<length tokens.
            (index < j \<and> regexFollower tokens j
               \<longrightarrow> patternToken regexpCompile (tokens ! j) = Some (tokens' ! j))
          \<and> (\<not> (index < j \<and> regexFollower tokens j) \<longrightarrow> tokens' ! j = tokens ! j)"
      proof (intro allI impI)
        fix j assume j: "j < length tokens"
        show "(index < j \<and> regexFollower tokens j
               \<longrightarrow> patternToken regexpCompile (tokens ! j) = Some (tokens' ! j))
          \<and> (\<not> (index < j \<and> regexFollower tokens j) \<longrightarrow> tokens' ! j = tokens ! j)"
        proof (cases "j = Suc index")
          case True
          have "tokens' ! Suc index = tokens1 ! Suc index"
            using t(3) sidx len1 by auto
          then show ?thesis using True follow sp(3) at by simp
        next
          case False
          then show ?thesis
            using t(3) j len1 fu[OF False] nth1[OF False] by auto
        qed
      qed
      with r t(2) len1 show ?thesis by auto
    qed
  qed
qed

lemma optimizeTokensFrom_error:
  assumes "lexemeTyped tokens" "comparatorNotLast tokens"
    and "index < j0" "regexFollower tokens j0"
    and "Value (tokens ! j0) = VString src" "regexpCompile src = Inl msg"
    and "\<forall>j. index < j \<and> j < j0 \<and> regexFollower tokens j
            \<longrightarrow> patternToken regexpCompile (tokens ! j) \<noteq> None"
  shows "snd (optimizeTokensFrom regexpCompile index tokens) = Some (externalError msg)"
  using assms
proof (induction regexpCompile index tokens rule: optimizeTokensFrom.induct)
  case (1 regexpCompile index tokens)
  have j0len: "j0 < length tokens" using "1.prems"(4) by (simp add: regexFollower_def)
  then have False: "\<not> length tokens \<le> index" using "1.prems"(3) by simp
  then have idx: "index < length tokens" by simp
  show ?case
  proof (cases "isRegexComparator (tokens ! index) \<and> Kind (tokens ! Suc index) = tSTRING")
    case nf: False
    have "j0 \<noteq> Suc index"
      using nf "1.prems"(4) by (auto simp: regexFollower_def)
    then have lt: "Suc index < j0" using "1.prems"(3) by simp
    have b: "optimizeTokensBody regexpCompile index tokens = (tokens, None)"
    proof (cases "isRegexComparator (tokens ! index)")
      case False
      then show ?thesis using body_not_regex[OF idx "1.prems"(1)] by simp
    next
      case True
      then have "Kind (tokens ! index) = tCOMPARATOR" by (simp add: isRegexComparator_def)
      then have "Suc index < length tokens"
        using "1.prems"(2) idx by (simp add: comparatorNotLast_def)
      then show ?thesis using body_regex[OF _ "1.prems"(1) True] nf True by simp
    qed
    have p7: "\<forall>j. Suc index < j \<and> j < j0 \<and> regexFollower tokens j
            \<longrightarrow> patternToken regexpCompile (tokens ! j) \<noteq> None"
      using "1.prems"(7) by auto
    have "snd (optimizeTokensFrom regexpCompile (Suc index) tokens) = Some (externalError msg)"
      using "1.IH"[OF False b[symmetric] refl "1.prems"(1,2) lt "1.prems"(4,5,6) p7] .
    then show ?thesis
      using False b by (subst optimizeTokensFrom.simps) simp
  next
    case fo: True
    then have "Kind (tokens ! index) = tCOMPARATOR" by (simp add: isRegexComparator_def)
    then have sidx: "Suc index < length tokens"
      using "1.prems"(2) idx by (simp add: comparatorNotLast_def)
    have follow: "regexFollower tokens (Suc index)"
      using fo sidx by (simp add: regexFollower_def)
    show ?thesis
    proof (cases "j0 = Suc index")
      case True
      have b: "optimizeTokensBody regexpCompile index tokens = (tokens, Some (externalError msg))"
        using body_regex[OF sidx "1.prems"(1), of regexpCompile] fo "1.prems"(5,6) True
        by simp
      show ?thesis
        using False b by (subst optimizeTokensFrom.simps) simp
    next
      case ne: False
      then have lt: "Suc index < j0" using "1.prems"(3) by simp
      have "patternToken regexpCompile (tokens ! Suc index) \<noteq> None"
        using "1.prems"(7) follow lt by simp
      then obtain src' pat where sp: "Value (tokens ! Suc index) = VString src'"
        "regexpCompile src' = Inr pat"
        by (auto simp: patternToken_def split: val.splits sum.splits)
      define tokens1 where "tokens1 = tokens[Suc index := \<lparr>Kind = tPATTERN, Value = VPattern pat\<rparr>]"
      have b: "optimizeTokensBody regexpCompile index tokens = (tokens1, None)"
        using body_regex[OF sidx "1.prems"(1), of regexpCompile] fo sp
        by (simp add: tokens1_def)
      have ty1: "lexemeTyped tokens1"
        unfolding tokens1_def by (rule lexemeTyped_update[OF "1.prems"(1)]) simp
      have cn1: "comparatorNotLast tokens1"
        unfolding tokens1_def by (rule comparatorNotLast_update[OF "1.prems"(2)]) simp
      have fu: "\<And>j. j \<noteq> Suc index \<Longrightarrow> regexFollower tokens1 j = regexFollower tokens j"
        unfolding tokens1_def using regexFollower_update[of tokens "Suc index"] fo by simp
      have nth1: "\<And>j. j \<noteq> Suc index \<Longrightarrow> tokens1 ! j = tokens ! j"
        unfolding tokens1_def by simp
      have f1: "regexFollower tokens1 j0" using fu[OF ne] "1.prems"(4) by simp
      have v1: "Value (tokens1 ! j0) = VString src" using nth1[OF ne] "1.prems"(5) by simp
      have p7: "\<forall>j. Suc index < j \<and> j < j0 \<and> regexFollower tokens1 j
            \<longrightarrow> patternToken regexpCompile (tokens1 ! j) \<noteq> None"
        using "1.prems"(7) fu nth1 by auto
      have "snd (optimizeTokensFrom regexpCompile (Suc index) tokens1) = Some (externalError msg)"
        using "1.IH"[OF False b[symmetric] refl ty1 cn1 lt f1 v1 "1.prems"(6) p7] .
      then show ?thesis
        using False b by (subst optimizeTokensFrom.simps) simp
    qed
  qed
qed

text \<open>
  Claim C6. For every token list that passed syntax checking (with comparator and string
  tokens carrying strings), \<open>optimizeTokens\<close> rewrites exactly the \<open>tSTRING\<close> tokens that
  immediately follow a \<open>tCOMPARATOR\<close> token with value \<open>=~\<close> or \<open>!~\<close> into \<open>tPATTERN\<close>
  tokens carrying the compiled regular expression and leaves every other token unchanged;
  when such a string fails to compile (the first one in token order), the compilation error
  is the result.
\<close>

theorem optimizeTokens_rewrites_regex_followers:
  assumes "checkExpressionSyntax tokens = None" and "lexemeTyped tokens"
  shows "((\<forall>j. regexFollower tokens j \<longrightarrow> patternToken regexpCompile (tokens ! j) \<noteq> None) \<longrightarrow>
            (\<exists>tokens'. optimizeTokens regexpCompile tokens = (tokens', None)
               \<and> length tokens' = length tokens
               \<and> (\<forall>j<length tokens.
                     (regexFollower tokens j
                        \<longrightarrow> patternToken regexpCompile (tokens ! j) = Some (tokens' ! j))
                   \<and> (\<not> regexFollower tokens j \<longrightarrow> tokens' ! j = tokens ! j))))
       \<and> (\<forall>j source msg.
             regexFollower tokens j \<and> Value (tokens ! j) = VString source
             \<and> regexpCompile source = Inl msg
             \<and> (\<forall>j'<j. regexFollower tokens j'
                    \<longrightarrow> patternToken regexpCompile (tokens ! j') \<noteq> None)
           \<longrightarrow> snd (optimizeTokens regexpCompile tokens) = Some (externalError msg))"
proof (intro conjI allI impI)
  assume a: "\<forall>j. regexFollower tokens j \<longrightarrow> patternToken regexpCompile (tokens ! j) \<noteq> None"
  have pos: "\<And>j. regexFollower tokens j \<Longrightarrow> 0 < j" by (simp add: regexFollower_def)
  have "\<forall>j. 0 < j \<and> regexFollower tokens j \<longrightarrow> patternToken regexpCompile (tokens ! j) \<noteq> None"
    using a by simp
  from optimizeTokensFrom_success[OF assms(2) syntax_comparatorNotLast[OF assms(1)] this]
  obtain tokens' where t: "optimizeTokensFrom regexpCompile 0 tokens = (tokens', None)"
    "length tokens' = length tokens"
    "\<forall>j<length tokens.
            (0 < j \<and> regexFollower tokens j
               \<longrightarrow> patternToken regexpCompile (tokens ! j) = Some (tokens' ! j))
          \<and> (\<not> (0 < j \<and> regexFollower tokens j) \<longrightarrow> tokens' ! j = tokens ! j)"
    by blast
  have "\<forall>j<length tokens.
                     (regexFollower tokens j
                        \<longrightarrow> patternToken regexpCompile (tokens ! j) = Some (tokens' ! j))
                   \<and> (\<not> regexFollower tokens j \<longrightarrow> tokens' ! j = tokens ! j)"
    using t(3) pos by blast
  with t(1,2) show "\<exists>tokens'. optimizeTokens regexpCompile tokens = (tokens', None)
               \<and> length tokens' = length tokens
               \<and> (\<forall>j<length tokens.
                     (regexFollower tokens j
                        \<longrightarrow> patternToken regexpCompile (tokens ! j) = Some (tokens' ! j))
                   \<and> (\<not> regexFollower tokens j \<longrightarrow> tokens' ! j = tokens ! j))"
    unfolding optimizeTokens_def by blast
next
  fix j source msg
  assume a: "regexFollower tokens j \<and> Value (tokens ! j) = VString source
             \<and> regexpCompile source = Inl msg
             \<and> (\<forall>j'<j. regexFollower tokens j'
                    \<longrightarrow> patternToken regexpCompile (tokens ! j') \<noteq> None)"
  then have pos: "0 < j" by (simp add: regexFollower_def)
  have p7: "\<forall>j'. 0 < j' \<and> j' < j \<and> regexFollower tokens j'
            \<longrightarrow> patternToken regexpCompile (tokens ! j') \<noteq> None"
    using a by blast
  show "snd (optimizeTokens regexpCompile tokens) = Some (externalError msg)"
    unfolding optimizeTokens_def
    using optimizeTokensFrom_error[OF assms(2) syntax_comparatorNotLast[OF assms(1)] pos _ _ _ p7]
      a by blast
qed

text \<open>
  The theorem at \<open>x =~ 'a'\<close> and at \<open>x !~ '('\<close>, with a compiler that rejects \<open>(\<close>.
\<close>

definition exampleCompile :: "string \<Rightarrow> string + string" where
  "exampleCompile source = (if source = ''('' then Inl ''missing closing )'' else Inr source)"

theorem optimizeTokens_rewrites_regex_followers_witness:
  "optimizeTokens exampleCompile
      [\<lparr>Kind = tVARIABLE, Value = VString ''x''\<rparr>, \<lparr>Kind = tCOMPARATOR, Value = VString ''=~''\<rparr>,
       \<lparr>Kind = tSTRING, Value = (VString ''a'' :: (int, string) val)\<rparr>]
     = ([\<lparr>Kind = tVARIABLE, Value = VString ''x''\<rparr>, \<lparr>Kind = tCOMPARATOR, Value = VString ''=~''\<rparr>,
         \<lparr>Kind = tPATTERN, Value = VPattern ''a''\<rparr>], None)
   \<and> snd (optimizeTokens exampleCompile
      [\<lparr>Kind = tVARIABLE, Value = VString ''x''\<rparr>, \<lparr>Kind = tCOMPARATOR, Value = VString ''!~''\<rparr>,
       \<lparr>Kind = tSTRING, Value = (VString ''('' :: (int, string) val)\<rparr>])
     = Some (externalError ''missing closing )'')"
proof -
  let ?T1 = "[\<lparr>Kind = tVARIABLE, Value = VString ''x''\<rparr>,
              \<lparr>Kind = tCOMPARATOR, Value = VString ''=~''\<rparr>,
              \<lparr>Kind = tSTRING, Value = (VString ''a'' :: (int, string) val)\<rparr>]"
  let ?T2 = "[\<lparr>Kind = tVARIABLE, Value = VString ''x''\<rparr>,
              \<lparr>Kind = tCOMPARATOR, Value = VString ''!~''\<rparr>,
              \<lparr>Kind = tSTRING, Value = (VString ''('' :: (int, string) val)\<rparr>]"
  have s1: "checkExpressionSyntax ?T1 = None"
    by (simp add: checkExpressionSyntax_def validLexerStates_def zeroToken_def
        canTransitionTo_def getLexerStateForToken_def)
  have s2: "checkExpressionSyntax ?T2 = None"
    by (simp add: checkExpressionSyntax_def validLexerStates_def zeroToken_def
        canTransitionTo_def getLexerStateForToken_def)
  have t1: "lexemeTyped ?T1" by (simp add: lexemeTyped_def)
  have t2: "lexemeTyped ?T2" by (simp add: lexemeTyped_def)
  have f1: "\<And>j. regexFollower ?T1 j \<longleftrightarrow> j = 2"
    by (auto simp: regexFollower_def isRegexComparator_def nth_Cons split: nat.splits)
  have f2: "\<And>j. regexFollower ?T2 j \<longleftrightarrow> j = 2"
    by (auto simp: regexFollower_def isRegexComparator_def nth_Cons split: nat.splits)
  have c1: "\<forall>j. regexFollower ?T1 j \<longrightarrow> patternToken exampleCompile (?T1 ! j) \<noteq> None"
    by (simp add: f1 patternToken_def exampleCompile_def)
  from optimizeTokens_rewrites_regex_followers[OF s1 t1, of exampleCompile] c1
  obtain tokens' where r: "optimizeTokens exampleCompile ?T1 = (tokens', None)"
    "length tokens' = length ?T1"
    "\<forall>j<length ?T1. (regexFollower ?T1 j
                        \<longrightarrow> patternToken exampleCompile (?T1 ! j) = Some (tokens' ! j))
                   \<and> (\<not> regexFollower ?T1 j \<longrightarrow> tokens' ! j = ?T1 ! j)"
    by blast
  have "tokens' ! 0 = ?T1 ! 0" "tokens' ! 1 = ?T1 ! 1"
    "tokens' ! 2 = \<lparr>Kind = tPATTERN, Value = VPattern ''a''\<rparr>"
    using r(3)[rule_format, of 0] r(3)[rule_format, of 1] r(3)[rule_format, of 2]
    by (simp_all add: f1 patternToken_def exampleCompile_def)
  then have "tokens' = [\<lparr>Kind = tVARIABLE, Value = VString ''x''\<rparr>,
         \<lparr>Kind = tCOMPARATOR, Value = VString ''=~''\<rparr>,
         \<lparr>Kind = tPATTERN, Value = VPattern ''a''\<rparr>]"
    using r(2) by (auto simp: list_eq_iff_nth_eq less_Suc_eq numeral_3_eq_3 numeral_2_eq_2)
  with r(1) have g1: "optimizeTokens exampleCompile ?T1
     = ([\<lparr>Kind = tVARIABLE, Value = VString ''x''\<rparr>, \<lparr>Kind = tCOMPARATOR, Value = VString ''=~''\<rparr>,
         \<lparr>Kind = tPATTERN, Value = VPattern ''a''\<rparr>], None)" by simp
  have "regexFollower ?T2 2 \<and> Value (?T2 ! 2) = VString ''(''
             \<and> exampleCompile ''('' = Inl ''missing closing )''
             \<and> (\<forall>j'<2. regexFollower ?T2 j'
                    \<longrightarrow> patternToken exampleCompile (?T2 ! j') \<noteq> None)"
    by (simp add: f2 exampleCompile_def)
  with optimizeTokens_rewrites_regex_followers[OF s2 t2, of exampleCompile]
  have g2: "snd (optimizeTokens exampleCompile ?T2) = Some (externalError ''missing closing )'')"
    by blast
  from g1 g2 show ?thesis by blast
qed

section \<open>The identifier branch of the lexer (\<^verbatim>\<open>readToken\<close>)\<close>

text \<open>
  Source text is modelled as a list of ASCII characters, one \<open>char\<close> per rune.
  \<open>stringsIndex\<close> and \<open>stringsSplit\<close> are \<^verbatim>\<open>strings.Index\<close> and
  \<^verbatim>\<open>strings.Split\<close> for a separator of one character; \<open>unicodeToUpper\<close> is
  \<^verbatim>\<open>unicode.ToUpper\<close> on ASCII: it changes the letters \<open>a\<close> to \<open>z\<close> only. Go's
  function also changes lowercase letters beyond ASCII; a lexeme with such a letter is
  outside this model, and nothing below is stated about one.
\<close>

fun stringsIndex :: "string \<Rightarrow> char \<Rightarrow> int" where
  "stringsIndex [] c = - 1"
| "stringsIndex (x # xs) c =
     (if x = c then 0 else (let r = stringsIndex xs c in if r < 0 then - 1 else r + 1))"

fun stringsSplit :: "string \<Rightarrow> char \<Rightarrow> string list" where
  "stringsSplit [] c = [[]]"
| "stringsSplit (x # xs) c =
     (if x = c then [] # stringsSplit xs c
      else (case stringsSplit xs c of
              [] \<Rightarrow> [[x]]
            | y # ys \<Rightarrow> (x # y) # ys))"

definition getFirstRune :: "string \<Rightarrow> char" where
  "getFirstRune candidate = (case candidate of [] \<Rightarrow> CHR 0x00 | character # _ \<Rightarrow> character)"

definition unicodeToUpper :: "char \<Rightarrow> char" where
  "unicodeToUpper c =
     (let n = (of_char c :: nat) in if 97 \<le> n \<and> n \<le> 122 then char_of (n - 32) else c)"

text \<open>
  The loop over \<^verbatim>\<open>splits[1:]\<close> that rejects unexported fields: a segment is rejected
  when upper-casing its first character changes it.
\<close>

fun checkExported :: "string \<Rightarrow> string list \<Rightarrow> ('n, 'p) error option" where
  "checkExported tokenString [] = None"
| "checkExported tokenString (split # rest) =
     (let firstCharacter = getFirstRune split in
      if unicodeToUpper firstCharacter \<noteq> firstCharacter then
        Some (errorf (''Unable to access unexported field '%s' in token '%s'' @ [CHR 0x27])
                [VString split, VString tokenString])
      else checkExported tokenString rest)"

text \<open>
  The branch of \<^verbatim>\<open>readToken\<close> taken when the first character is a letter, as a function
  of the lexeme \<open>tokenString\<close> that \<^verbatim>\<open>readTokenUntilFalse(stream, isVariableName)\<close>
  returned and of the function table (names to functions). The assignments to \<open>kind\<close> and
  \<open>tokenValue\<close> are made in the order of the source; the accessor test comes last and
  overrides them.
\<close>

definition readTokenIdentifier ::
  "(string \<times> string) list \<Rightarrow> string \<Rightarrow> ('n, 'p) error + ('n, 'p) tExpressionToken" where
  "readTokenIdentifier functions tokenString =
     (let tokenValue = VString tokenString;
          kind = tVARIABLE;
          (kind, tokenValue) =
            (if tokenValue = VString ''true'' then (tBOOLEAN, VBool True)
             else if tokenValue = VString ''false'' then (tBOOLEAN, VBool False)
             else (kind, tokenValue));
          (kind, tokenValue) =
            (if tokenValue = VString ''in'' \<or> tokenValue = VString ''tIN''
             then (tCOMPARATOR, VString ''in'')
             else (kind, tokenValue));
          (kind, tokenValue) =
            (case map_of functions tokenString of
               Some function \<Rightarrow> (tFUNCTION, VFunction function)
             | None \<Rightarrow> (kind, tokenValue));
          accessorIndex = stringsIndex tokenString CHR ''.''
      in
        if accessorIndex > 0 then
          (if last tokenString = CHR ''.'' then
             Inl (errorf (''Hanging accessor on token '%s'' @ [CHR 0x27]) [VString tokenString])
           else
             (let splits = stringsSplit tokenString CHR ''.'' in
              case checkExported tokenString (tl splits) of
                Some err \<Rightarrow> Inl err
              | None \<Rightarrow> Inr \<lparr>Kind = tACCESSOR, Value = VStrings splits\<rparr>))
        else Inr \<lparr>Kind = kind, Value = tokenValue\<rparr>)"


lemma stringsIndex_neg: "stringsIndex s c < 0 \<longleftrightarrow> c \<notin> set s"
  by (induction s) (auto simp: Let_def)

lemma stringsIndex_ge: "stringsIndex s c \<ge> - 1"
  by (induction s) (auto simp: Let_def)

text \<open>
  Claim C7 says that a dotted lexeme is a lex error when it ends with a \<open>.\<close> or when a
  segment after the first starts with a character that is not uppercase, and is an
  \<open>tACCESSOR\<close> token otherwise. The lexeme \<open>a._b\<close> has a second segment that starts with
  \<open>_\<close>, which is not an uppercase character; the lexer nevertheless emits the accessor token
  with the segments \<open>a\<close> and \<open>_b\<close>, because upper-casing \<open>_\<close> leaves it unchanged.
\<close>

theorem readToken_accessor_underscore:
  "(readTokenIdentifier [] ''a._b'' :: (int, string) error + (int, string) tExpressionToken)
     = Inr \<lparr>Kind = tACCESSOR, Value = VStrings [''a'', ''_b'']\<rparr>"
  by (simp add: readTokenIdentifier_def getFirstRune_def unicodeToUpper_def Let_def)

text \<open>
  Claim C8 says that an identifier lexeme that is not \<open>true\<close> or \<open>false\<close>, is not a key of
  the function table and contains no \<open>.\<close> becomes the comparator \<open>in\<close> exactly when it is
  \<open>in\<close>, and a \<open>tVARIABLE\<close> token carrying the lexeme in every other case. The lexer's test
  is \<^verbatim>\<open>tokenValue == "in" || tokenValue == "tIN"\<close>, under the comment
  \<^verbatim>\<open>force lower case for consistency\<close>: its second literal is the name of the Go
  constant \<open>tIN\<close>, not a spelling of \<open>in\<close> in another case. At the lexeme \<open>tIN\<close>, which is
  not \<open>in\<close>, the lexer emits the comparator \<open>in\<close> where the claim says a variable named
  \<open>tIN\<close>.
\<close>

theorem readToken_tIN_comparator:
  "(readTokenIdentifier [] ''tIN'' :: (int, string) error + (int, string) tExpressionToken)
     = Inr \<lparr>Kind = tCOMPARATOR, Value = VString ''in''\<rparr> \<and> ''tIN'' \<noteq> ''in''"
  by (simp add: readTokenIdentifier_def Let_def)

text \<open>
  The uppercase spelling \<open>IN\<close>, the one the comment is about, is a variable; and away from
  \<open>tIN\<close> the lexer does what the claim says: the comparator \<open>in\<close> exactly for the lexeme
  \<open>in\<close>, a variable carrying the lexeme otherwise.
\<close>

lemma readToken_IN_variable:
  "(readTokenIdentifier [] ''IN'' :: (int, string) error + (int, string) tExpressionToken)
     = Inr \<lparr>Kind = tVARIABLE, Value = VString ''IN''\<rparr>"
  by (simp add: readTokenIdentifier_def Let_def)

lemma readToken_in_iff_away_from_tIN:
  assumes "tokenString \<noteq> ''true''" "tokenString \<noteq> ''false''"
    and "map_of functions tokenString = None"
    and "CHR ''.'' \<notin> set tokenString"
    and "tokenString \<noteq> ''tIN''"
  shows "(readTokenIdentifier functions tokenString
              = Inr \<lparr>Kind = tCOMPARATOR, Value = VString ''in''\<rparr> \<longleftrightarrow> tokenString = ''in'')
       \<and> (tokenString \<noteq> ''in'' \<longrightarrow>
            readTokenIdentifier functions tokenString
              = Inr \<lparr>Kind = tVARIABLE, Value = VString tokenString\<rparr>)"
proof -
  have "\<not> stringsIndex tokenString CHR ''.'' > 0"
    using assms(4) stringsIndex_neg[of tokenString "CHR ''.''"] by simp
  then show ?thesis
    using assms(1,2,3,5) by (auto simp add: readTokenIdentifier_def Let_def)
qed

section \<open>Evaluation stages (\<^verbatim>\<open>evaluationStage\<close>) and their operators\<close>

text \<open>
  A Go function that returns \<^verbatim>\<open>(interface{}, error)\<close> returns a \<open>result\<close>: the value
  and the error, \<open>None\<close> for \<^verbatim>\<open>nil\<close>. The interface \<^verbatim>\<open>tParameters\<close> has the one
  method \<^verbatim>\<open>tGet\<close>, so a parameter source is that function. An operator takes the two
  operand values and the parameters, which the constant folder passes as \<^verbatim>\<open>nil\<close>.

  The struct \<^verbatim>\<open>evaluationStage\<close> is declared in a file that is not among the sources
  at hand; its fields are the ones the planner and the evaluator read and write. A stage owns
  its children, so the stages form a tree.
\<close>

type_synonym ('n, 'p) result = "('n, 'p) val \<times> ('n, 'p) error option"

type_synonym ('n, 'p) tParameters = "string \<Rightarrow> ('n, 'p) result"

type_synonym ('n, 'p) evaluationOperator =
  "('n, 'p) val \<Rightarrow> ('n, 'p) val \<Rightarrow> ('n, 'p) tParameters option \<Rightarrow> ('n, 'p) result"

type_synonym ('n, 'p) stageTypeCheck = "('n, 'p) val \<Rightarrow> bool"

type_synonym ('n, 'p) stageCombinedTypeCheck = "('n, 'p) val \<Rightarrow> ('n, 'p) val \<Rightarrow> bool"

datatype ('n, 'p) evaluationStage =
  Stage (symbol: tOperatorSymbol)
        (leftStage: "('n, 'p) evaluationStage option")
        (rightStage: "('n, 'p) evaluationStage option")
        (operator: "('n, 'p) evaluationOperator")
        (leftTypeCheck: "('n, 'p) stageTypeCheck option")
        (rightTypeCheck: "('n, 'p) stageTypeCheck option")
        (typeCheck: "('n, 'p) stageCombinedTypeCheck option")
        (typeErrorFormat: typeErrorFormat)

text \<open>\<^verbatim>\<open>tOperatorSymbol.String\<close>, used in type errors.\<close>

fun symbolString :: "tOperatorSymbol \<Rightarrow> string" where
  "symbolString tNOOP = ''tNOOP''"
| "symbolString tVALUE = ''tVALUE''"
| "symbolString tEQ = ''=''"
| "symbolString tNEQ = ''!=''"
| "symbolString tGT = ''>''"
| "symbolString tLT = ''<''"
| "symbolString tGTE = ''>=''"
| "symbolString tLTE = ''<=''"
| "symbolString tREQ = ''=~''"
| "symbolString tNREQ = ''!~''"
| "symbolString tAND = ''&&''"
| "symbolString tOR = ''||''"
| "symbolString tIN = ''in''"
| "symbolString tBITWISE_AND = ''&''"
| "symbolString tBITWISE_OR = ''|''"
| "symbolString tBITWISE_XOR = ''^''"
| "symbolString tBITWISE_LSHIFT = ''<<''"
| "symbolString tBITWISE_RSHIFT = ''>>''"
| "symbolString tPLUS = ''+''"
| "symbolString tMINUS = ''-''"
| "symbolString tMULTIPLY = ''*''"
| "symbolString tDIVIDE = ''/''"
| "symbolString tMODULUS = ''%''"
| "symbolString tEXPONENT = ''**''"
| "symbolString tNEGATE = ''-''"
| "symbolString tINVERT = ''!''"
| "symbolString tBITWISE_NOT = ''~''"
| "symbolString tTERNARY_TRUE = ''?''"
| "symbolString tTERNARY_FALSE = '':''"
| "symbolString tCOALESCE = ''??''"
| "symbolString tLITERAL = ''''"
| "symbolString tFUNCTIONAL = ''''"
| "symbolString tACCESS = ''''"
| "symbolString tSEPARATE = ''''"

text \<open>
  The operator functions named by \<^verbatim>\<open>stageSymbolMap\<close> and by the planner are not among the
  sources at hand. The arithmetic, bitwise, comparison, regular expression, membership,
  prefix and separator operators are taken as a parameter, \<open>symbolOperator\<close>: a function of
  the symbol and the two operand values. So are the call of a function of the function table
  on the value of the right child (\<open>callFunction\<close>) and the walk of an accessor path
  (\<open>accessPath\<close>).
\<close>

record ('n, 'p) platform =
  symbolOperator :: "tOperatorSymbol \<Rightarrow> ('n, 'p) val \<Rightarrow> ('n, 'p) val \<Rightarrow> ('n, 'p) result"
  callFunction :: "string \<Rightarrow> ('n, 'p) val \<Rightarrow> ('n, 'p) result"
  accessPath ::
    "string list \<Rightarrow> ('n, 'p) tParameters option \<Rightarrow> ('n, 'p) val \<Rightarrow> ('n, 'p) result"

text \<open>
  Modelled from the spec: the operator closures \<^verbatim>\<open>makeLiteralStage\<close>,
  \<^verbatim>\<open>makeParameterStage\<close>, \<^verbatim>\<open>noopStageRight\<close>, \<^verbatim>\<open>makeFunctionStage\<close> and
  \<^verbatim>\<open>makeAccessorStage\<close> are missing. The spec (section 4.4) says: a literal stage
  returns its baked value; a variable stage looks its name up in the parameters; \<open>NOOP\<close>
  returns right as it is; \<open>FUNCTIONAL\<close> calls the carried function with the value of its right
  child; \<open>ACCESS\<close> walks the path on the parameters, with the value of the right child as the
  arguments.
\<close>

definition makeLiteralStage :: "('n, 'p) val \<Rightarrow> ('n, 'p) evaluationOperator" where
  "makeLiteralStage literal = (\<lambda>left right parameters. (literal, None))"



definition makeFunctionStage :: "('n, 'p) platform \<Rightarrow> string \<Rightarrow> ('n, 'p) evaluationOperator" where
  "makeFunctionStage pf function = (\<lambda>left right parameters. callFunction pf function right)"


text \<open>
  Modelled from the spec: the operators \<^verbatim>\<open>andStage\<close>, \<^verbatim>\<open>orStage\<close>,
  \<^verbatim>\<open>ternaryIfStage\<close> and \<^verbatim>\<open>ternaryElseStage\<close> are missing. The spec (section 4.4)
  says: \<open>AND\<close> and \<open>OR\<close> take two booleans; \<open>TERNARY_TRUE\<close> takes a boolean on the left and
  returns right when it is true and the no-value otherwise; \<open>TERNARY_FALSE\<close> returns right
  when left is the no-value and left otherwise; \<open>COALESCE\<close> is the same implementation, the
  no-value being \<^verbatim>\<open>nil\<close>. An operand of another type fails the type assertion.
\<close>

definition andStage :: "('n, 'p) evaluationOperator" where
  "andStage =
     (\<lambda>left right parameters.
        case (left, right) of
          (VBool a, VBool b) \<Rightarrow> (VBool (a \<and> b), None)
        | _ \<Rightarrow> (VNil, Some (panic ''interface conversion: interface {} is not bool'')))"






text \<open>
  Modelled from the spec: the type checks \<^verbatim>\<open>isBool\<close>, \<^verbatim>\<open>isFloat64\<close>,
  \<^verbatim>\<open>isArray\<close>, \<^verbatim>\<open>isRegexOrString\<close>, \<^verbatim>\<open>comparatorTypeCheck\<close> and
  \<^verbatim>\<open>additionTypeCheck\<close> are missing. The spec (sections 3 and 4.4) says: comparisons
  take two numbers or two strings, \<open>PLUS\<close> number and number or string and string; the unary
  checks test the dynamic type their name says.
\<close>

fun isBool :: "('n, 'p) val \<Rightarrow> bool" where
  "isBool (VBool b) = True"
| "isBool v = False"






section \<open>The evaluator (\<^verbatim>\<open>evaluateStage\<close>)\<close>

text \<open>
  The short-circuit marker is the Go \<^verbatim>\<open>int\<close> constant \<open>-1\<close>.

  Modelled from the spec: the method \<^verbatim>\<open>isShortCircuitable\<close> is missing. The spec
  (sections 2 and 4.5) lists the symbols with a short-circuit rule: \<open>AND\<close>, \<open>OR\<close>,
  \<open>COALESCE\<close>, \<open>TERNARY_TRUE\<close> and \<open>TERNARY_FALSE\<close>.
\<close>

definition shortCircuitHolder :: "('n, 'p) val" where
  "shortCircuitHolder = VInt (- 1)"

definition isShortCircuitable :: "('n, 'p) evaluationStage \<Rightarrow> bool" where
  "isShortCircuitable this =
     (symbol this = tAND \<or> symbol this = tOR \<or> symbol this = tTERNARY_TRUE
      \<or> symbol this = tTERNARY_FALSE \<or> symbol this = tCOALESCE)"

text \<open>
  The function \<^verbatim>\<open>typeCheck\<close> (named \<open>typeCheckValue\<close> here, since the stage has a field
  of that name): no check, or a check that holds, gives no error.
\<close>

definition typeCheckValue ::
  "('n, 'p) stageTypeCheck option \<Rightarrow> ('n, 'p) val \<Rightarrow> tOperatorSymbol \<Rightarrow> typeErrorFormat
     \<Rightarrow> ('n, 'p) error option" where
  "typeCheckValue check v smb format =
     (case check of
        None \<Rightarrow> None
      | Some check \<Rightarrow>
          if check v then None
          else Some (errorFormat format [v, VString (symbolString smb)]))"

text \<open>
  The end of \<^verbatim>\<open>evaluateStage\<close>, once both operand values are known: the type checks
  when \<^verbatim>\<open>ChecksTypes\<close> is set (the combined check alone when the stage has one, the two
  unary checks otherwise), then the operator.
\<close>

definition evaluateStageFinish ::
  "bool \<Rightarrow> ('n, 'p) evaluationStage \<Rightarrow> ('n, 'p) val \<Rightarrow> ('n, 'p) val
     \<Rightarrow> ('n, 'p) tParameters \<Rightarrow> ('n, 'p) result" where
  "evaluateStageFinish checksTypes stage left right parameters =
     (let err =
        (if checksTypes then
           (case typeCheck stage of
              None \<Rightarrow>
                (case typeCheckValue (leftTypeCheck stage) left (symbol stage)
                        (typeErrorFormat stage) of
                   Some err \<Rightarrow> Some err
                 | None \<Rightarrow>
                     typeCheckValue (rightTypeCheck stage) right (symbol stage)
                       (typeErrorFormat stage))
            | Some check \<Rightarrow>
                if \<not> check left right then
                  Some (errorFormat (typeErrorFormat stage)
                          [left, VString (symbolString (symbol stage))])
                else None)
         else None)
      in case err of
           Some err \<Rightarrow> (VNil, Some err)
         | None \<Rightarrow> operator stage left right (Some parameters))"

text \<open>
  \<^verbatim>\<open>evaluateStage\<close>. Besides the result the model returns the stages on which
  \<^verbatim>\<open>evaluateStage\<close> was called, in the order of the calls: the stage itself, then what
  the evaluation of the left child visited, then what the evaluation of the right child
  visited. A child that is not in the list was never evaluated.
\<close>

fun evaluateStage ::
  "bool \<Rightarrow> ('n, 'p) evaluationStage \<Rightarrow> ('n, 'p) tParameters
     \<Rightarrow> ('n, 'p) result \<times> ('n, 'p) evaluationStage list" where
  "evaluateStage checksTypes (Stage smb leftSt rightSt oper ltc rtc tc format) parameters =
     (let stage = Stage smb leftSt rightSt oper ltc rtc tc format;
          (leftResult, leftVisited) =
            (case leftSt of
               None \<Rightarrow> ((VNil, None), [])
             | Some l \<Rightarrow> evaluateStage checksTypes l parameters)
      in case snd leftResult of
           Some err \<Rightarrow> ((VNil, Some err), stage # leftVisited)
         | None \<Rightarrow>
             (let left = fst leftResult in
              if isShortCircuitable stage \<and> smb = tAND \<and> left = VBool False then
                ((VBool False, None), stage # leftVisited)
              else if isShortCircuitable stage \<and> smb = tOR \<and> left = VBool True then
                ((VBool True, None), stage # leftVisited)
              else if isShortCircuitable stage \<and> smb = tCOALESCE \<and> left \<noteq> VNil then
                ((left, None), stage # leftVisited)
              else
                (let right =
                       (if isShortCircuitable stage \<and> smb = tTERNARY_TRUE
                           \<and> left = VBool False then shortCircuitHolder
                        else if isShortCircuitable stage \<and> smb = tTERNARY_FALSE
                           \<and> left \<noteq> VNil then shortCircuitHolder
                        else VNil);
                     (rightResult, rightVisited) =
                       (if right \<noteq> shortCircuitHolder then
                          (case rightSt of
                             None \<Rightarrow> ((right, None), [])
                           | Some r \<Rightarrow> evaluateStage checksTypes r parameters)
                        else ((right, None), []))
                 in case snd rightResult of
                      Some err \<Rightarrow> ((VNil, Some err), stage # leftVisited @ rightVisited)
                    | None \<Rightarrow>
                        (evaluateStageFinish checksTypes stage left (fst rightResult) parameters,
                         stage # leftVisited @ rightVisited))))"

text \<open>
  Claim C3. The evaluator evaluates the left child first (its visits come right after the
  stage itself, before anything else) and applies the short-circuit rules before touching
  the right child: for \<open>AND\<close> with left false the result is false, for \<open>OR\<close> with left true
  it is true, for \<open>COALESCE\<close> with left non-nil it is left, and in each case the visited
  stages are the stage and those of the left child, so the right child is not evaluated. For
  \<open>TERNARY_TRUE\<close> with left false and \<open>TERNARY_FALSE\<close> with left non-nil the right child is
  not evaluated either: the right operand is the short-circuit marker, with which the type
  checks and the operator are run.
\<close>

theorem evaluateStage_short_circuit:
  assumes "leftStage stage = Some l"
    and "evaluateStage checksTypes l parameters = ((left, None), leftVisited)"
  shows "(\<exists>rest. snd (evaluateStage checksTypes stage parameters) = stage # leftVisited @ rest)
   \<and> (symbol stage = tAND \<and> left = VBool False \<longrightarrow>
        evaluateStage checksTypes stage parameters
          = ((VBool False, None), stage # leftVisited))
   \<and> (symbol stage = tOR \<and> left = VBool True \<longrightarrow>
        evaluateStage checksTypes stage parameters
          = ((VBool True, None), stage # leftVisited))
   \<and> (symbol stage = tCOALESCE \<and> left \<noteq> VNil \<longrightarrow>
        evaluateStage checksTypes stage parameters
          = ((left, None), stage # leftVisited))
   \<and> (symbol stage = tTERNARY_TRUE \<and> left = VBool False \<longrightarrow>
        evaluateStage checksTypes stage parameters
          = (evaluateStageFinish checksTypes stage left shortCircuitHolder parameters,
             stage # leftVisited))
   \<and> (symbol stage = tTERNARY_FALSE \<and> left \<noteq> VNil \<longrightarrow>
        evaluateStage checksTypes stage parameters
          = (evaluateStageFinish checksTypes stage left shortCircuitHolder parameters,
             stage # leftVisited))"
proof (cases stage)
  case (Stage smb leftSt rightSt oper ltc rtc tc format)
  have l: "leftSt = Some l" using assms(1) Stage by simp
  show ?thesis
    unfolding Stage
    apply (intro conjI impI)
    subgoal
      by (simp add: l assms(2) Let_def split: prod.splits option.splits)
    subgoal
      by (simp add: l assms(2) Let_def isShortCircuitable_def)
    subgoal
      by (simp add: l assms(2) Let_def isShortCircuitable_def)
    subgoal
      by (simp add: l assms(2) Let_def isShortCircuitable_def)
    subgoal
      by (simp add: l assms(2) Let_def isShortCircuitable_def)
    subgoal
      by (simp add: l assms(2) Let_def isShortCircuitable_def)
    done
qed

text \<open>
  An instance of the parameters for examples: numbers are integers, with subtraction,
  addition and multiplication; a function returns its name. \<open>tMapParameters\<close> is the
  parameter source of \<^verbatim>\<open>core/parameters.go\<close> over a map, \<open>tDUMMY_PARAMETERS\<close> the one
  over the empty map. The stage tree of \<open>false && f()\<close> follows.
\<close>

definition tMapParameters ::
  "(string \<Rightarrow> ('n, 'p) val option) \<Rightarrow> ('n, 'p) tParameters" where
  "tMapParameters p =
     (\<lambda>name.
        case p name of
          None \<Rightarrow>
            (VNil, Some (errorsNew (''No parameter '' @ [CHR 0x27] @ name @ [CHR 0x27]
                                     @ '' found.'')))
        | Some v \<Rightarrow> (v, None))"

definition tDUMMY_PARAMETERS :: "('n, 'p) tParameters" where
  "tDUMMY_PARAMETERS = tMapParameters (\<lambda>name. None)"

definition examplePlatform :: "(int, string) platform" where
  "examplePlatform =
     \<lparr>symbolOperator = (\<lambda>smb left right.
          case (smb, left, right) of
            (tMINUS, VFloat a, VFloat b) \<Rightarrow> (VFloat (a - b), None)
          | (tPLUS, VFloat a, VFloat b) \<Rightarrow> (VFloat (a + b), None)
          | (tMULTIPLY, VFloat a, VFloat b) \<Rightarrow> (VFloat (a * b), None)
          | _ \<Rightarrow> (VNil, Some (errorsNew ''unsupported''))),
      callFunction = (\<lambda>name args. (VString name, None)),
      accessPath = (\<lambda>path parameters args. (VNil, Some (errorsNew ''no such parameter'')))\<rparr>"

definition exampleFalse :: "(int, string) evaluationStage" where
  "exampleFalse =
     Stage tLITERAL None None (makeLiteralStage (VBool False)) None None None noErrorFormat"

definition exampleCall :: "(int, string) evaluationStage" where
  "exampleCall =
     Stage tFUNCTIONAL None None (makeFunctionStage examplePlatform ''f'') None None None
       (errorFormatText (''Unable to run function '%v': %v''))"

definition exampleAnd :: "(int, string) evaluationStage" where
  "exampleAnd =
     Stage tAND (Some exampleFalse) (Some exampleCall) andStage (Some isBool) (Some isBool) None
       logicalErrorFormat"

text \<open>The theorem at \<open>false && f()\<close>: the call stage is not visited.\<close>

theorem evaluateStage_short_circuit_witness:
  "evaluateStage True exampleAnd tDUMMY_PARAMETERS = ((VBool False, None), [exampleAnd, exampleFalse])
   \<and> leftStage exampleAnd = Some exampleFalse
   \<and> evaluateStage True exampleFalse tDUMMY_PARAMETERS = ((VBool False, None), [exampleFalse])"
proof -
  have l: "leftStage exampleAnd = Some exampleFalse" by (simp add: exampleAnd_def)
  have e: "evaluateStage True exampleFalse tDUMMY_PARAMETERS = ((VBool False, None), [exampleFalse])"
    by (simp add: exampleFalse_def evaluateStageFinish_def makeLiteralStage_def
        isShortCircuitable_def shortCircuitHolder_def typeCheckValue_def
        tDUMMY_PARAMETERS_def)
  have s: "symbol exampleAnd = tAND" by (simp add: exampleAnd_def)
  show ?thesis
    using evaluateStage_short_circuit[OF l e] s l e by simp
qed

section \<open>Operator symbols and their precedence (\<^verbatim>\<open>core/OperatorSymbol.go\<close>)\<close>












section \<open>The token stream\<close>

text \<open>
  The planner reads the tokens through a \<^verbatim>\<open>*tokenStream\<close>, which every planning
  function mutates; the model passes the stream along and returns it. \<^verbatim>\<open>next\<close> indexes
  the slice without a test, so outside the slice it panics; \<^verbatim>\<open>rewind\<close> only decrements
  the index.
\<close>

record ('n, 'p) tokenStream =
  tokens :: "('n, 'p) tExpressionToken list"
  index :: int
  tokenLength :: int





section \<open>The planner\<close>










section \<open>Reordering stages of equal precedence\<close>














section \<open>Constant folding\<close>




section \<open>\<^verbatim>\<open>planStages\<close>\<close>





section \<open>Compiling and evaluating an expression\<close>



record ('n, 'p) tEvaluableExpression =
  QueryDateFormat :: string
  ChecksTypes :: bool
  tokens' :: "('n, 'p) tExpressionToken list"
  evaluationStages :: "('n, 'p) evaluationStage option"
  inputExpression :: string

type_synonym ('n, 'p) lexer =
  "string \<Rightarrow> (string \<times> string) list \<Rightarrow> ('n, 'p) error + ('n, 'p) tExpressionToken list"


























end
